theory Spec2Isabelle
  imports Main "HOL-Library.Sublist"
begin

section \<open>Strings\<close>

text \<open>
  A Python string is a list of code points.  The code points of the model are the 256
  of Latin-1 (\<open>Latin c\<close>) and two more: U+0130, the capital I with a dot above, and
  U+0307, the combining dot above.  U+0130 is the one code point whose \<open>str.lower\<close> is
  not a single code point: it is \<open>i\<close> followed by U+0307.
\<close>

datatype cp = Latin char | CapitalIDot | CombiningDot

type_synonym pystr = "cp list"

text \<open>The Python string of an ASCII literal.\<close>

definition lit :: "string \<Rightarrow> pystr" where
  "lit s = map Latin s"

definition slash :: cp where
  "slash = Latin (CHR ''/'')"

definition dot :: cp where
  "dot = Latin (CHR ''.'')"

text \<open>
  \<open>str.lower\<close> on Latin-1: the ASCII capitals (65..90) and the Latin-1 capitals (192..222
  without the multiplication sign 215) have their lowercase 32 above; every other code
  point of the range is its own lowercase.
\<close>

definition lower_char :: "char \<Rightarrow> char" where
  "lower_char c =
     (let n = (of_char c :: nat)
      in if (65 \<le> n \<and> n \<le> 90) \<or> (192 \<le> n \<and> n \<le> 222 \<and> n \<noteq> 215)
         then char_of (n + 32) else c)"

fun lower_cp :: "cp \<Rightarrow> pystr" where
  "lower_cp (Latin c) = [Latin (lower_char c)]"
| "lower_cp CapitalIDot = [Latin (CHR ''i''), CombiningDot]"
| "lower_cp CombiningDot = [CombiningDot]"

definition lower :: "pystr \<Rightarrow> pystr" where
  "lower s = concat (map lower_cp s)"

text \<open>\<open>a.startswith(b)\<close>\<close>

definition startswith :: "pystr \<Rightarrow> pystr \<Rightarrow> bool" where
  "startswith a b = prefix b a"

section \<open>Voice table of \<open>generate_audio\<close>\<close>

definition voice_map :: "(pystr \<times> pystr) list" where
  "voice_map =
     [(lit ''en'', lit ''en-US-AriaNeural''),
      (lit ''es'', lit ''es-ES-ElviraNeural''),
      (lit ''fr'', lit ''fr-FR-DeniseNeural''),
      (lit ''de'', lit ''de-DE-KatjaNeural''),
      (lit ''it'', lit ''it-IT-ElsaNeural''),
      (lit ''pt'', lit ''pt-BR-FranciscaNeural''),
      (lit ''ru'', lit ''ru-RU-SvetlanaNeural''),
      (lit ''ja'', lit ''ja-JP-NanamiNeural''),
      (lit ''ko'', lit ''ko-KR-SunHiNeural''),
      (lit ''zh'', lit ''zh-CN-XiaoxiaoNeural''),
      (lit ''ar'', lit ''ar-SA-ZariyahNeural''),
      (lit ''hi'', lit ''hi-IN-SwaraNeural''),
      (lit ''nl'', lit ''nl-NL-ColetteNeural''),
      (lit ''pl'', lit ''pl-PL-AgnieszkaNeural''),
      (lit ''tr'', lit ''tr-TR-EmelNeural'')]"

definition default_voice :: pystr where
  "default_voice = lit ''en-US-AriaNeural''"

text \<open>
  \<open>lang_code = target_language[:2].lower() if len(target_language) >= 2
     else target_language.lower()\<close>
\<close>

definition lang_code :: "pystr \<Rightarrow> pystr" where
  "lang_code target_language =
     (if length target_language \<ge> 2 then lower (take 2 target_language)
      else lower target_language)"

section \<open>Errors, collaborators and the observable state\<close>

text \<open>
  \<open>Exception msg\<close> is any exception of class \<open>Exception\<close>, with a label for its message;
  \<open>SystemExit n\<close> is what \<open>sys.exit(n)\<close> raises.  It is not an \<open>Exception\<close>, so
  \<open>except Exception\<close> lets it pass.
\<close>

datatype py_exc = Exception string | SystemExit int

text \<open>An entry of the catalogue returned by \<open>edge_tts.list_voices()\<close>.\<close>

record voice =
  Locale :: pystr
  ShortName :: pystr

datatype whisper_model = WhisperModel pystr

record transcript =
  "text" :: pystr
  segments :: "pystr list"

datatype stage = Extract | Transcribe | Translate | Synthesize | Remux

text \<open>
  What a run does that can be seen from outside: calls of the collaborators, the
  begin and end messages each stage method prints, and the widgets of the web panel.
\<close>

datatype event =
    Mkdtemp pystr
  | LoadBegin
  | LoadEnd
  | LoadError string
  | Begin stage
  | End stage
  | ListVoices
  | Warning pystr
  | UsingVoice pystr
  | TranslationError string
  | Rmtree pystr
  | PrintError string
  | PrintSuccess pystr
  | ProgressCreate nat
  | Progress nat
  | StatusText string
  | StError string
  | StSuccess
  | WidgetsEmptied

text \<open>
  The collaborators (Whisper, Google Translate, Edge TTS, MoviePy, the temporary-file
  service) are parameters of the model.  A result \<open>Inl msg\<close>, or \<open>Some msg\<close> for a call
  without a value, is an exception of class \<open>Exception\<close> raised by the collaborator.
  \<open>write_videofile\<close> can return without an output file (the web panel tests for it):
  its result \<open>Inr b\<close> says whether the file is on disk afterwards.
\<close>

record env =
  mkdtemp :: "string + pystr"
  whisper_load_model :: "pystr \<Rightarrow> string + whisper_model"
  video_file_clip :: "pystr \<Rightarrow> string option"
  audio_file_clip :: "pystr \<Rightarrow> string option"
  write_audiofile :: "pystr \<Rightarrow> pystr \<Rightarrow> string option"
  whisper_transcribe :: "whisper_model \<Rightarrow> pystr \<Rightarrow> string + transcript"
  google_translate :: "pystr \<Rightarrow> pystr \<Rightarrow> string + pystr"
  list_voices :: "string + voice list"
  communicate_save :: "pystr \<Rightarrow> pystr \<Rightarrow> pystr \<Rightarrow> string option"
  write_videofile :: "pystr \<Rightarrow> pystr \<Rightarrow> pystr \<Rightarrow> string + bool"

text \<open>
  The fields \<open>model\<close> and \<open>temp_dir\<close> of a \<open>VideoTranslator\<close>, the directories and
  files that exist on disk, and the events so far.
\<close>

record state =
  model :: "whisper_model option"
  temp_dir :: "pystr option"
  dirs :: "pystr list"
  files :: "pystr list"
  trace :: "event list"

definition log :: "event \<Rightarrow> state \<Rightarrow> state" where
  "log e s = s\<lparr>trace := trace s @ [e]\<rparr>"

definition fetches :: "state \<Rightarrow> nat" where
  "fetches s = count_list (trace s) ListVoices"

section \<open>\<open>VideoTranslator.generate_audio\<close>\<close>

text \<open>
  Lines 100 to 119 of \<open>generate_audio\<close>: the choice of the voice.  The catalogue is
  fetched inside the \<open>if\<close> only.  (The \<open>Communicate\<close> object built on line 110 is
  never used; it is not part of the model.)
\<close>

definition select_voice :: "env \<Rightarrow> pystr \<Rightarrow> state \<Rightarrow> (py_exc + pystr) \<times> state" where
  "select_voice E target_language s =
     (let code = lang_code target_language;
          voice = (case map_of voice_map code of Some v \<Rightarrow> v | None \<Rightarrow> lit ''en-US-AriaNeural'')
      in if voice = lit ''en-US-AriaNeural'' \<and> map_of voice_map code = None then
           (let s1 = log ListVoices s
            in case list_voices E of
                 Inl e \<Rightarrow> (Inl (Exception e), s1)
               | Inr voices \<Rightarrow>
                   (case filter (\<lambda>v. startswith (Locale v) code) voices of
                      v # _ \<Rightarrow> (Inr (ShortName v), s1)
                    | [] \<Rightarrow> (Inr voice, log (Warning target_language) s1)))
         else (Inr voice, s))"

definition generate_audio ::
    "env \<Rightarrow> pystr \<Rightarrow> pystr \<Rightarrow> pystr \<Rightarrow> state \<Rightarrow> (py_exc + unit) \<times> state" where
  "generate_audio E txt target_language output_path s =
     (case select_voice E target_language (log (Begin Synthesize) s) of
        (Inl e, s1) \<Rightarrow> (Inl e, s1)
      | (Inr voice, s1) \<Rightarrow>
          (let s2 = log (UsingVoice voice) s1
           in case communicate_save E txt voice output_path of
                Some e \<Rightarrow> (Inl (Exception e), s2)
              | None \<Rightarrow> (Inr (), log (End Synthesize) (s2\<lparr>files := output_path # files s2\<rparr>))))"

section \<open>The stage methods of \<open>VideoTranslator\<close>\<close>

text \<open>
  A method returns \<open>Inr\<close> its value or \<open>Inl\<close> the exception it raises, with the state it
  leaves.  \<open>and_then\<close> is the sequencing of two statements: an exception of the first
  skips the second.
\<close>

definition and_then ::
    "(py_exc + 'a) \<times> state \<Rightarrow> ('a \<Rightarrow> state \<Rightarrow> (py_exc + 'b) \<times> state) \<Rightarrow> (py_exc + 'b) \<times> state" where
  "and_then r f = (case r of (Inl e, s) \<Rightarrow> (Inl e, s) | (Inr a, s) \<Rightarrow> f a s)"

text \<open>\<open>os.path.join(a, b)\<close> for two components, POSIX flavour.\<close>

definition path_join :: "pystr \<Rightarrow> pystr \<Rightarrow> pystr" where
  "path_join a b =
     (if b \<noteq> [] \<and> hd b = slash then b
      else if a = [] \<or> last a = slash then a @ b
      else a @ slash # b)"

text \<open>\<open>os.path.join(self.temp_dir, name)\<close>: a \<open>TypeError\<close> while \<open>temp_dir\<close> is \<open>None\<close>.\<close>

definition join_temp_dir :: "pystr \<Rightarrow> state \<Rightarrow> (py_exc + pystr) \<times> state" where
  "join_temp_dir name s =
     (case temp_dir s of
        None \<Rightarrow> (Inl (Exception ''TypeError''), s)
      | Some d \<Rightarrow> (Inr (path_join d name), s))"

text \<open>A call of a collaborator that returns nothing.\<close>

definition call :: "string option \<Rightarrow> state \<Rightarrow> (py_exc + unit) \<times> state" where
  "call r s = (case r of Some e \<Rightarrow> (Inl (Exception e), s) | None \<Rightarrow> (Inr (), s))"

definition load_model :: "env \<Rightarrow> state \<Rightarrow> (py_exc + unit) \<times> state" where
  "load_model E s =
     (let s1 = log LoadBegin s
      in case whisper_load_model E (lit ''base'') of
           Inl e \<Rightarrow> (Inl (Exception e), log (LoadError e) s1)
         | Inr m \<Rightarrow> (Inr (), log LoadEnd (s1\<lparr>model := Some m\<rparr>)))"

definition extract_audio :: "env \<Rightarrow> pystr \<Rightarrow> state \<Rightarrow> (py_exc + pystr) \<times> state" where
  "extract_audio E video_path s =
     and_then (call (video_file_clip E video_path) (log (Begin Extract) s)) (\<lambda>_ s1.
     and_then (join_temp_dir (lit ''original_audio.wav'') s1) (\<lambda>audio_path s2.
     and_then (call (write_audiofile E video_path audio_path) s2) (\<lambda>_ s3.
       (Inr audio_path, log (End Extract) (s3\<lparr>files := audio_path # files s3\<rparr>)))))"

definition transcribe_audio ::
    "env \<Rightarrow> pystr \<Rightarrow> state \<Rightarrow> (py_exc + pystr \<times> pystr list) \<times> state" where
  "transcribe_audio E audio_path s =
     (let s1 = log (Begin Transcribe) s
      in case model s1 of
           None \<Rightarrow> (Inl (Exception ''AttributeError''), s1)
         | Some m \<Rightarrow>
             (case whisper_transcribe E m audio_path of
                Inl e \<Rightarrow> (Inl (Exception e), s1)
              | Inr result \<Rightarrow> (Inr (text result, segments result), log (End Transcribe) s1)))"

text \<open>The \<open>except Exception\<close> of \<open>translate_text\<close> ends in \<open>sys.exit(1)\<close>.\<close>

definition translate_text :: "env \<Rightarrow> pystr \<Rightarrow> pystr \<Rightarrow> state \<Rightarrow> (py_exc + pystr) \<times> state" where
  "translate_text E txt target_language s =
     (let s1 = log (Begin Translate) s
      in case google_translate E txt target_language of
           Inr translated_text \<Rightarrow> (Inr translated_text, log (End Translate) s1)
         | Inl e \<Rightarrow> (Inl (SystemExit 1), log (TranslationError e) s1))"

text \<open>A call of a collaborator that returns a value.\<close>

definition call_value :: "string + 'a \<Rightarrow> state \<Rightarrow> (py_exc + 'a) \<times> state" where
  "call_value r s = (case r of Inl e \<Rightarrow> (Inl (Exception e), s) | Inr a \<Rightarrow> (Inr a, s))"

definition create_translated_video ::
    "env \<Rightarrow> pystr \<Rightarrow> pystr \<Rightarrow> pystr \<Rightarrow> state \<Rightarrow> (py_exc + unit) \<times> state" where
  "create_translated_video E original_video_path new_audio_path output_path s =
     and_then (call (video_file_clip E original_video_path) (log (Begin Remux) s)) (\<lambda>_ s1.
     and_then (call (audio_file_clip E new_audio_path) s1) (\<lambda>_ s2.
     and_then (join_temp_dir (lit ''temp_audio.m4a'') s2) (\<lambda>_ s3.
     and_then (call_value (write_videofile E original_video_path new_audio_path output_path) s3)
       (\<lambda>written s4.
       (Inr (), log (End Remux)
                  (if written then s4\<lparr>files := output_path # files s4\<rparr> else s4))))))"

section \<open>The temporary directory\<close>

definition is_under :: "pystr \<Rightarrow> pystr \<Rightarrow> bool" where
  "is_under d p = prefix (d @ [slash]) p"

text \<open>
  \<open>shutil.rmtree(d)\<close> with its default \<open>ignore_errors=False\<close>: the directory and all
  below it are removed; a path that does not exist is a \<open>FileNotFoundError\<close>, a
  file a \<open>NotADirectoryError\<close>.
\<close>

definition rmtree :: "pystr \<Rightarrow> state \<Rightarrow> (py_exc + unit) \<times> state" where
  "rmtree d s =
     (let s1 = log (Rmtree d) s
      in if d \<in> set (dirs s1)
         then (Inr (), s1\<lparr>dirs := filter (\<lambda>p. p \<noteq> d \<and> \<not> is_under d p) (dirs s1),
                          files := filter (\<lambda>p. \<not> is_under d p) (files s1)\<rparr>)
         else if d \<in> set (files s1) then (Inl (Exception ''NotADirectoryError''), s1)
         else (Inl (Exception ''FileNotFoundError''), s1))"

text \<open>\<open>tempfile.mkdtemp()\<close>, and the statement \<open>self.temp_dir = tempfile.mkdtemp()\<close>.\<close>

definition make_temp_dir :: "env \<Rightarrow> state \<Rightarrow> (py_exc + pystr) \<times> state" where
  "make_temp_dir E s =
     (case mkdtemp E of
        Inl e \<Rightarrow> (Inl (Exception e), s)
      | Inr d \<Rightarrow> (Inr d, log (Mkdtemp d) (s\<lparr>dirs := d # dirs s\<rparr>)))"

text \<open>
  The cleanup of \<open>translate_video\<close>, line 181: \<open>shutil.rmtree(self.temp_dir)\<close>.
\<close>

definition cleanup :: "state \<Rightarrow> (py_exc + unit) \<times> state" where
  "cleanup s =
     (case temp_dir s of
        None \<Rightarrow> (Inl (Exception ''TypeError''), s)
      | Some d \<Rightarrow> rmtree d s)"

definition set_temp_dir :: "pystr \<Rightarrow> state \<Rightarrow> (py_exc + unit) \<times> state" where
  "set_temp_dir d s = (Inr (), s\<lparr>temp_dir := Some d\<rparr>)"

section \<open>\<open>VideoTranslator.translate_video\<close>\<close>

text \<open>The body of the \<open>try\<close>, lines 152 to 183.\<close>

definition translate_video_try ::
    "env \<Rightarrow> pystr \<Rightarrow> pystr \<Rightarrow> pystr \<Rightarrow> state \<Rightarrow> (py_exc + unit) \<times> state" where
  "translate_video_try E video_path target_language output_path s =
     and_then (make_temp_dir E s) (\<lambda>d s0.
     and_then (set_temp_dir d s0) (\<lambda>_ s0.
     and_then (if model s0 = None then load_model E s0 else (Inr (), s0)) (\<lambda>_ s1.
     and_then (extract_audio E video_path s1) (\<lambda>audio_path s2.
     and_then (transcribe_audio E audio_path s2) (\<lambda>(txt, segs) s3.
     and_then (translate_text E txt target_language s3) (\<lambda>translated_text s4.
     and_then (join_temp_dir (lit ''translated_audio.mp3'') s4) (\<lambda>new_audio_path s5.
     and_then (generate_audio E translated_text target_language new_audio_path s5) (\<lambda>_ s6.
     and_then (create_translated_video E video_path new_audio_path output_path s6) (\<lambda>_ s7.
     and_then (cleanup s7) (\<lambda>_ s8.
       (Inr (), log (PrintSuccess output_path) s8)))))))))))"

text \<open>
  The \<open>except Exception\<close> of lines 185 to 189: the error is printed and the process
  exits with status 1.  A \<open>SystemExit\<close> is not caught.
\<close>

definition translate_video ::
    "env \<Rightarrow> pystr \<Rightarrow> pystr \<Rightarrow> pystr \<Rightarrow> state \<Rightarrow> (py_exc + unit) \<times> state" where
  "translate_video E video_path target_language output_path s =
     (case translate_video_try E video_path target_language output_path s of
        (Inl (Exception e), s') \<Rightarrow> (Inl (SystemExit 1), log (PrintError e) s')
      | r \<Rightarrow> r)"

text \<open>The events a run adds to the trace.\<close>

definition events_since :: "state \<Rightarrow> state \<Rightarrow> event list" where
  "events_since s s' = drop (length (trace s)) (trace s')"

fun is_stage_event :: "event \<Rightarrow> bool" where
  "is_stage_event (Begin _) = True"
| "is_stage_event (End _) = True"
| "is_stage_event _ = False"

definition stage_events :: "event list \<Rightarrow> event list" where
  "stage_events evs = filter is_stage_event evs"

fun is_cleanup :: "event \<Rightarrow> bool" where
  "is_cleanup (Rmtree _) = True"
| "is_cleanup _ = False"

definition stage_order :: "event list" where
  "stage_order =
     [Begin Extract, End Extract, Begin Transcribe, End Transcribe,
      Begin Translate, End Translate, Begin Synthesize, End Synthesize,
      Begin Remux, End Remux]"

section \<open>Paths\<close>

text \<open>
  \<open>pathlib.Path\<close>, POSIX flavour: a path is its root and its components.  The root is
  empty, one slash, or two slashes when the string starts with exactly two.  Empty
  components and \<open>.\<close> are dropped when a string is parsed, \<open>..\<close> is kept.
\<close>

record pure_path =
  root :: pystr
  parts :: "pystr list"

fun split_on :: "cp \<Rightarrow> pystr \<Rightarrow> pystr list" where
  "split_on c [] = [[]]"
| "split_on c (x # xs) =
     (if x = c then [] # split_on c xs
      else (case split_on c xs of y # ys \<Rightarrow> (x # y) # ys | [] \<Rightarrow> [[x]]))"

fun join_slash :: "pystr list \<Rightarrow> pystr" where
  "join_slash [] = []"
| "join_slash [x] = x"
| "join_slash (x # y # zs) = x @ slash # join_slash (y # zs)"

fun parse_root :: "pystr \<Rightarrow> pystr" where
  "parse_root (a # b # c # _) =
     (if a = slash then (if b = slash \<and> c \<noteq> slash then [slash, slash] else [slash]) else [])"
| "parse_root [a, b] =
     (if a = slash then (if b = slash then [slash, slash] else [slash]) else [])"
| "parse_root [a] = (if a = slash then [slash] else [])"
| "parse_root [] = []"

definition Path :: "pystr \<Rightarrow> pure_path" where
  "Path p =
     \<lparr>root = parse_root p,
      parts = filter (\<lambda>c. c \<noteq> [] \<and> c \<noteq> [dot]) (split_on slash p)\<rparr>"

definition path_str :: "pure_path \<Rightarrow> pystr" where
  "path_str p =
     (if root p = [] \<and> parts p = [] then [dot]
      else root p @ join_slash (parts p))"

definition name :: "pure_path \<Rightarrow> pystr" where
  "name p = (if parts p = [] then [] else last (parts p))"

definition parent :: "pure_path \<Rightarrow> pure_path" where
  "parent p = p\<lparr>parts := butlast (parts p)\<rparr>"

text \<open>\<open>s.rfind(c)\<close>; \<open>None\<close> stands for Python's \<open>-1\<close>.\<close>

definition rfind :: "cp \<Rightarrow> pystr \<Rightarrow> nat option" where
  "rfind c s =
     (case filter (\<lambda>i. s ! i = c) (rev [0..<length s]) of
        [] \<Rightarrow> None
      | i # _ \<Rightarrow> Some i)"

text \<open>\<open>suffix\<close> and \<open>stem\<close> cut the name at its last dot when \<open>0 < i < len(name) - 1\<close>.\<close>

definition path_suffix :: "pure_path \<Rightarrow> pystr" where
  "path_suffix p =
     (let n = name p
      in case rfind dot n of
           None \<Rightarrow> []
         | Some i \<Rightarrow> if 0 < i \<and> i < length n - 1 then drop i n else [])"

definition stem :: "pure_path \<Rightarrow> pystr" where
  "stem p =
     (let n = name p
      in case rfind dot n of
           None \<Rightarrow> n
         | Some i \<Rightarrow> if 0 < i \<and> i < length n - 1 then take i n else n)"

text \<open>\<open>p / key\<close> for a pystr \<open>key\<close>.\<close>

definition truediv :: "pure_path \<Rightarrow> pystr \<Rightarrow> pure_path" where
  "truediv p key =
     (let q = Path key
      in if root q \<noteq> [] then q else p\<lparr>parts := parts p @ parts q\<rparr>)"

definition os_path_exists :: "pystr \<Rightarrow> state \<Rightarrow> bool" where
  "os_path_exists p s = (p \<in> set (files s) \<or> p \<in> set (dirs s))"

section \<open>\<open>main\<close>\<close>

text \<open>The parsed command line.\<close>

record args =
  input :: pystr
  language :: pystr
  "output" :: "pystr option"

text \<open>Lines 227 to 232.  \<open>not args.output\<close> holds for \<open>None\<close> and for the empty pystr.\<close>

definition default_output_path :: "pystr \<Rightarrow> pystr \<Rightarrow> pure_path" where
  "default_output_path inp lang =
     (let input_path = Path inp
      in truediv (parent input_path)
           (stem input_path @ (lit ''_translated_'') @ lang @ path_suffix input_path))"



section \<open>The web panel's translation block\<close>

text \<open>The entries of \<open>st.session_state\<close>.\<close>

record session =
  translator_created :: bool
  model_loaded :: bool
  processing :: bool

text \<open>\<open>status_text.text(msg)\<close> followed by \<open>progress_bar.progress(n)\<close>.\<close>

definition step :: "string \<Rightarrow> nat \<Rightarrow> state \<Rightarrow> (py_exc + unit) \<times> state" where
  "step msg n s = (Inr (), log (Progress n) (log (StatusText msg) s))"

text \<open>Lines 211 to 216: the translator is created when the session has none.\<close>

definition app_init_translator ::
    "env \<Rightarrow> session \<Rightarrow> state \<Rightarrow> (py_exc + unit) \<times> session \<times> state" where
  "app_init_translator E ss s =
     (if \<not> translator_created ss then
        (let ss1 = ss\<lparr>translator_created := True\<rparr>;
             s1 = s\<lparr>model := None, temp_dir := None\<rparr>
         in if \<not> model_loaded ss1 then
              (case load_model E s1 of
                 (Inl e, s2) \<Rightarrow> (Inl e, ss1, s2)
               | (Inr _, s2) \<Rightarrow> (Inr (), ss1\<lparr>model_loaded := True\<rparr>, s2))
            else (Inr (), ss1, s1))
      else (Inr (), ss, s))"

text \<open>Lines 220 to 282: the stages with their progress updates, and the success path.\<close>

definition app_stages ::
    "env \<Rightarrow> pystr \<Rightarrow> pystr \<Rightarrow> pystr \<Rightarrow> pystr \<Rightarrow> state \<Rightarrow> (py_exc + unit) \<times> state" where
  "app_stages E tmp temp_video_path target_language temp_output_path s =
     and_then (step ''Step 1/6: Extracting audio from video...'' 10 s) (\<lambda>_ s1.
     and_then (set_temp_dir tmp s1) (\<lambda>_ s1.
     and_then (extract_audio E temp_video_path s1) (\<lambda>audio_path s2.
     and_then (step ''Step 2/6: Transcribing audio to text...'' 30 s2) (\<lambda>_ s2.
     and_then (transcribe_audio E audio_path s2) (\<lambda>(txt, segs) s3.
     and_then (step ''Step 3/6: Translating text...'' 50 s3) (\<lambda>_ s3.
     and_then (translate_text E txt target_language s3) (\<lambda>translated_text s4.
     and_then (step ''Step 4/6: Generating translated audio...'' 70 s4) (\<lambda>_ s4.
     and_then (generate_audio E translated_text target_language
                 (path_join tmp (lit ''translated_audio.mp3'')) s4) (\<lambda>_ s5.
     and_then (step ''Step 5/6: Creating translated video...'' 85 s5) (\<lambda>_ s5.
     and_then (create_translated_video E temp_video_path
                 (path_join tmp (lit ''translated_audio.mp3'')) temp_output_path s5) (\<lambda>_ s6.
     and_then (step ''Step 6/6: Finalizing...'' 100 s6) (\<lambda>_ s6.
       if os_path_exists temp_output_path s6
       then rmtree tmp (log StSuccess s6)
       else (Inr (), log (StError ''Output file not found'') s6)))))))))))))"

text \<open>
  Lines 284 to 291, the \<open>except Exception\<close> of the block: the error is shown and the
  temporary directory is removed when it exists.
\<close>

definition app_except :: "pystr \<Rightarrow> (py_exc + unit) \<times> state \<Rightarrow> (py_exc + unit) \<times> state" where
  "app_except tmp r =
     (case r of
        (Inl (Exception e), s) \<Rightarrow>
          (let s1 = log (StError e) s
           in if os_path_exists tmp s1 then rmtree tmp s1 else (Inr (), s1))
      | _ \<Rightarrow> r)"

text \<open>
  Lines 188 to 295.  The \<open>finally\<close> clause resets \<open>processing\<close> and empties the two
  widgets on every way out of the \<open>try\<close>.
\<close>

definition app_translate ::
    "env \<Rightarrow> pystr \<Rightarrow> pystr \<Rightarrow> session \<Rightarrow> state \<Rightarrow> (py_exc + unit) \<times> session \<times> state" where
  "app_translate E uploaded_name target_language ss s =
     (if \<not> model_loaded ss
      then (Inr (), ss, log (StError ''Please load the Whisper model first'') s)
      else
        (let ss1 = ss\<lparr>processing := True\<rparr>
         in case make_temp_dir E s of
              (Inl e, s0) \<Rightarrow> (Inl e, ss1, s0)
            | (Inr tmp, s0) \<Rightarrow>
                (let temp_video_path = path_join tmp uploaded_name;
                     s1 = s0\<lparr>files := temp_video_path # files s0\<rparr>;
                     input_path = Path uploaded_name;
                     output_filename =
                       stem input_path @ (lit ''_translated_'') @ target_language @ path_suffix input_path;
                     temp_output_path = path_join tmp output_filename;
                     s2 = log (ProgressCreate 0) s1
                 in case app_init_translator E ss1 s2 of
                      (r0, ss2, s3) \<Rightarrow>
                        (case app_except tmp
                                (and_then (r0, s3) (\<lambda>_ s4.
                                   app_stages E tmp temp_video_path target_language
                                     temp_output_path s4)) of
                           (r, s5) \<Rightarrow> (r, ss2\<lparr>processing := False\<rparr>, log WidgetsEmptied s5)))))"

fun progress_of :: "event \<Rightarrow> nat option" where
  "progress_of (Progress n) = Some n"
| "progress_of _ = None"

definition progress_values :: "event list \<Rightarrow> nat list" where
  "progress_values evs = List.map_filter progress_of evs"

text \<open>The events of the voice choice inside \<open>generate_audio\<close>.\<close>

fun voice_event :: "event \<Rightarrow> bool" where
  "voice_event ListVoices = True"
| "voice_event (Warning _) = True"
| "voice_event (UsingVoice _) = True"
| "voice_event _ = False"

text \<open>Progress updates and stage beginnings, to relate the two.\<close>

fun is_checkpoint :: "event \<Rightarrow> bool" where
  "is_checkpoint (Progress _) = True"
| "is_checkpoint (Begin _) = True"
| "is_checkpoint _ = False"

definition checkpoints :: "event list \<Rightarrow> event list" where
  "checkpoints evs = filter is_checkpoint evs"

section \<open>Sample collaborators\<close>

text \<open>Collaborators that all succeed, with a small voice catalogue.\<close>

definition env_ok :: env where
  "env_ok =
     \<lparr>mkdtemp = Inr (lit ''/tmp/tmpab12''),
      whisper_load_model = (\<lambda>name. Inr (WhisperModel name)),
      video_file_clip = (\<lambda>_. None),
      audio_file_clip = (\<lambda>_. None),
      write_audiofile = (\<lambda>_ _. None),
      whisper_transcribe = (\<lambda>_ _. Inr \<lparr>text = lit ''hello'', segments = [lit ''hello'']\<rparr>),
      google_translate = (\<lambda>_ _. Inr (lit ''hola'')),
      list_voices = Inr [\<lparr>Locale = lit ''es-MX'', ShortName = lit ''es-MX-DaliaNeural''\<rparr>,
                         \<lparr>Locale = lit ''sv-SE'', ShortName = lit ''sv-SE-SofieNeural''\<rparr>,
                         \<lparr>Locale = lit ''sv-SE'', ShortName = lit ''sv-SE-MattiasNeural''\<rparr>],
      communicate_save = (\<lambda>_ _ _. None),
      write_videofile = (\<lambda>_ _ _. Inr True)\<rparr>"

text \<open>The same, with a video whose audio cannot be extracted.\<close>

definition env_no_audio :: env where
  "env_no_audio = env_ok\<lparr>write_audiofile := (\<lambda>_ _. Some ''AttributeError'')\<rparr>"

text \<open>The same, with a translation service that fails.\<close>

definition env_no_translation :: env where
  "env_no_translation = env_ok\<lparr>google_translate := (\<lambda>_ _. Inl ''LanguageNotSupportedException'')\<rparr>"

text \<open>A new translator on a disk that holds the input video.\<close>

definition fresh :: state where
  "fresh = \<lparr>model = None, temp_dir = None, dirs = [], files = [lit ''videos/clip.mp4''], trace = []\<rparr>"

text \<open>The same disk with a translator whose model is loaded.\<close>

definition loaded :: state where
  "loaded = fresh\<lparr>model := Some (WhisperModel (lit ''base''))\<rparr>"

definition loaded_session :: session where
  "loaded_session = \<lparr>translator_created = True, model_loaded = True, processing = False\<rparr>"

section \<open>Voice resolution\<close>

lemma lower_char_idem: "lower_char (lower_char c) = lower_char c"
proof -
  have lt: "(of_char c :: nat) < 256" by simp
  show ?thesis
    using lt by (auto simp: lower_char_def Let_def)
qed

lemma lower_append: "lower (a @ b) = lower a @ lower b"
  by (simp add: lower_def)

lemma lower_cp_idem: "lower (lower_cp c) = lower_cp c"
  by (cases c) (simp_all add: lower_def lower_char_idem, simp add: lower_char_def)

lemma lower_idem: "lower (lower s) = lower s"
proof (induction s)
  case Nil
  show ?case by (simp add: lower_def)
next
  case (Cons c s)
  have "lower (c # s) = lower_cp c @ lower s" by (simp add: lower_def)
  with Cons show ?case by (simp add: lower_append lower_cp_idem)
qed

lemma length_lower: "CapitalIDot \<notin> set s \<Longrightarrow> length (lower s) = length s"
proof (induction s)
  case Nil
  show ?case by (simp add: lower_def)
next
  case (Cons c s)
  then show ?case by (cases c) (simp_all add: lower_def)
qed

lemma lang_code_prefix2:
  "2 \<le> length t \<Longrightarrow> CapitalIDot \<notin> set (take 2 t) \<Longrightarrow>
     lang_code (lower (take 2 t)) = lang_code t"
  by (simp add: lang_code_def length_lower lower_idem)

lemma find_filter:
  "find P xs = (case filter P xs of [] \<Rightarrow> None | x # _ \<Rightarrow> Some x)"
  by (induction xs) auto

lemma find_SomeD: "find P xs = Some x \<Longrightarrow> P x \<and> x \<in> set xs"
  by (induction xs) (auto split: if_splits)

lemma select_voice_catalogue:
  assumes "map_of voice_map (lang_code t) = None" and "list_voices E = Inr voices"
  shows "select_voice E t s =
     (case find (\<lambda>c. startswith (Locale c) (lang_code t)) voices of
        Some c \<Rightarrow> (Inr (ShortName c), log ListVoices s)
      | None \<Rightarrow> (Inr default_voice, log (Warning t) (log ListVoices s)))"
  using assms
  by (simp add: select_voice_def Let_def find_filter default_voice_def split: list.splits)

lemma select_voice_static:
  "map_of voice_map (lang_code t) = Some v \<Longrightarrow> select_voice E t s = (Inr v, s)"
  by (simp add: select_voice_def Let_def)

text \<open>
  C3.  When the normalised code (the lowercase of the first two characters) is a key of
  the static voice table, the voice chosen is the table's entry for it, the state is
  left as it was, and neither the choice nor the whole of \<open>generate_audio\<close> fetches the
  catalogue.
\<close>

theorem static_voice_without_catalogue:
  assumes "map_of voice_map (lang_code t) = Some v"
  shows "select_voice E t s = (Inr v, s)
     \<and> fetches (snd (select_voice E t s)) = fetches s
     \<and> ListVoices \<notin> set (events_since s (snd (generate_audio E txt t out s)))"
proof -
  have sv: "select_voice E t s' = (Inr v, s')" for s'
    using assms by (rule select_voice_static)
  have "ListVoices \<notin> set (events_since s (snd (generate_audio E txt t out s)))"
    by (simp add: generate_audio_def sv Let_def events_since_def log_def split: option.splits)
  with sv show ?thesis by simp
qed

theorem static_voice_without_catalogue_witness:
  "map_of voice_map (lang_code (lit ''ES-mx'')) = Some (lit ''es-ES-ElviraNeural'')
   \<and> select_voice env_ok (lit ''ES-mx'') fresh = (Inr (lit ''es-ES-ElviraNeural''), fresh)
   \<and> fetches (snd (select_voice env_ok (lit ''ES-mx'') fresh)) = fetches fresh
   \<and> ListVoices \<notin> set (events_since fresh
         (snd (generate_audio env_ok (lit ''hola'') (lit ''ES-mx'') (lit ''out.mp3'') fresh)))"
proof -
  have h: "map_of voice_map (lang_code (lit ''ES-mx'')) = Some (lit ''es-ES-ElviraNeural'')"
    by code_simp
  from static_voice_without_catalogue [OF h, of env_ok fresh "lit ''hola''" "lit ''out.mp3''"] h
  show ?thesis by simp
qed

text \<open>
  C4.  When the normalised code is not a key of the static voice table and the
  catalogue is delivered, the catalogue is fetched exactly once, by the choice of the
  voice and by the whole of \<open>generate_audio\<close>.  The voice chosen is the \<open>ShortName\<close> of
  the first catalogue entry whose \<open>Locale\<close> starts with the normalised code.  When no
  entry matches it is the default English voice and a warning is recorded; the choice
  still returns a voice, \<open>generate_audio\<close> synthesises with it and returns normally
  when the synthesis succeeds.
\<close>

theorem catalogue_voice_or_default:
  assumes "map_of voice_map (lang_code t) = None" and "list_voices E = Inr voices"
  shows "\<exists>v s'. select_voice E t s = (Inr v, s') \<and> fetches s' = fetches s + 1 \<and>
     (case find (\<lambda>c. startswith (Locale c) (lang_code t)) voices of
        Some c \<Rightarrow> v = ShortName c \<and> c \<in> set voices \<and> startswith (Locale c) (lang_code t) \<and>
                  events_since s s' = [ListVoices]
      | None \<Rightarrow> v = default_voice \<and> events_since s s' = [ListVoices, Warning t]) \<and>
     fetches (snd (generate_audio E txt t out s)) = fetches s + 1 \<and>
     UsingVoice v \<in> set (events_since s (snd (generate_audio E txt t out s))) \<and>
     (communicate_save E txt v out = None \<longrightarrow> fst (generate_audio E txt t out s) = Inr ())"
proof (cases "find (\<lambda>c. startswith (Locale c) (lang_code t)) voices")
  case None
  with select_voice_catalogue [OF assms] show ?thesis
    by (simp add: generate_audio_def Let_def fetches_def log_def events_since_def
          split: option.splits)
next
  case (Some c)
  with select_voice_catalogue [OF assms] find_SomeD [OF Some] show ?thesis
    by (simp add: generate_audio_def Let_def fetches_def log_def events_since_def
          split: option.splits)
qed

theorem catalogue_voice_or_default_witness:
  "map_of voice_map (lang_code (lit ''sv'')) = None
   \<and> map_of voice_map (lang_code (lit ''xx'')) = None
   \<and> fst (select_voice env_ok (lit ''sv'') fresh) = Inr (lit ''sv-SE-SofieNeural'')
   \<and> fetches (snd (select_voice env_ok (lit ''sv'') fresh)) = 1
   \<and> fst (select_voice env_ok (lit ''xx'') fresh) = Inr default_voice
   \<and> fetches (snd (select_voice env_ok (lit ''xx'') fresh)) = 1
   \<and> events_since fresh (snd (select_voice env_ok (lit ''xx'') fresh))
       = [ListVoices, Warning (lit ''xx'')]
   \<and> fst (generate_audio env_ok (lit ''hej'') (lit ''xx'') (lit ''out.mp3'') fresh) = Inr ()
   \<and> UsingVoice default_voice
       \<in> set (events_since fresh
             (snd (generate_audio env_ok (lit ''hej'') (lit ''xx'') (lit ''out.mp3'') fresh)))"
proof -
  have h1: "map_of voice_map (lang_code (lit ''sv'')) = None" by code_simp
  have h2: "map_of voice_map (lang_code (lit ''xx'')) = None" by code_simp
  have l: "list_voices env_ok =
      Inr [\<lparr>Locale = lit ''es-MX'', ShortName = lit ''es-MX-DaliaNeural''\<rparr>,
           \<lparr>Locale = lit ''sv-SE'', ShortName = lit ''sv-SE-SofieNeural''\<rparr>,
           \<lparr>Locale = lit ''sv-SE'', ShortName = lit ''sv-SE-MattiasNeural''\<rparr>]"
    by (simp add: env_ok_def)
  have q1: "find (\<lambda>c. startswith (Locale c) (lang_code (lit ''sv'')))
      [\<lparr>Locale = lit ''es-MX'', ShortName = lit ''es-MX-DaliaNeural''\<rparr>,
           \<lparr>Locale = lit ''sv-SE'', ShortName = lit ''sv-SE-SofieNeural''\<rparr>,
           \<lparr>Locale = lit ''sv-SE'', ShortName = lit ''sv-SE-MattiasNeural''\<rparr>]
      = Some \<lparr>Locale = lit ''sv-SE'', ShortName = lit ''sv-SE-SofieNeural''\<rparr>"
    by code_simp
  have q2: "find (\<lambda>c. startswith (Locale c) (lang_code (lit ''xx'')))
      [\<lparr>Locale = lit ''es-MX'', ShortName = lit ''es-MX-DaliaNeural''\<rparr>,
           \<lparr>Locale = lit ''sv-SE'', ShortName = lit ''sv-SE-SofieNeural''\<rparr>,
           \<lparr>Locale = lit ''sv-SE'', ShortName = lit ''sv-SE-MattiasNeural''\<rparr>] = None"
    by code_simp
  have f0: "fetches fresh = 0" by (simp add: fetches_def fresh_def)
  have c: "communicate_save env_ok (lit ''hej'') default_voice (lit ''out.mp3'') = None"
    by (simp add: env_ok_def)
  note T1 = catalogue_voice_or_default [OF h1 l, of fresh "lit ''hej''" "lit ''out.mp3''",
      unfolded q1]
  note T2 = catalogue_voice_or_default [OF h2 l, of fresh "lit ''hej''" "lit ''out.mp3''",
      unfolded q2]
  from T1 T2 h1 h2 c show ?thesis
    by (auto simp add: f0)
qed

text \<open>
  C9 (amended).  For a target language of at least two characters, neither of the first
  two being U+0130, the voice chosen and the number of catalogue fetches are those of
  the lowercase of its first two characters.
\<close>

theorem voice_depends_on_primary_subtag:
  "2 \<le> length t \<Longrightarrow> CapitalIDot \<notin> set (take 2 t) \<Longrightarrow>
     fst (select_voice E t s) = fst (select_voice E (lower (take 2 t)) s)
     \<and> fetches (snd (select_voice E t s)) = fetches (snd (select_voice E (lower (take 2 t)) s))"
  by (simp add: select_voice_def Let_def lang_code_prefix2 fetches_def log_def
       split: sum.splits list.splits)

theorem voice_depends_on_primary_subtag_witness:
  "2 \<le> length (lit ''ES-mx'') \<and> CapitalIDot \<notin> set (take 2 (lit ''ES-mx''))
   \<and> fst (select_voice env_ok (lit ''ES-mx'') fresh) = fst (select_voice env_ok (lit ''es'') fresh)"
proof -
  have l: "lower (take 2 (lit ''ES-mx'')) = lit ''es''" by code_simp
  have n: "2 \<le> length (lit ''ES-mx'')" by (simp add: lit_def)
  have c: "CapitalIDot \<notin> set (take 2 (lit ''ES-mx''))" by (simp add: lit_def)
  from voice_depends_on_primary_subtag [OF n c, of env_ok fresh] l n c
  show ?thesis by simp
qed

text \<open>
  C9 as stated fails at the two-character code \<open>H\<close>, U+0130.  Its normalised code has
  three code points and is not in the voice table: the catalogue is fetched, nothing
  matches and the default voice is chosen.  The lowercase of its first two characters
  is the same three code points; resolving that string normalises it to \<open>hi\<close>, which is
  in the table, and chooses the Hindi voice without a fetch.
\<close>

theorem primary_subtag_counterexample:
  "2 \<le> length [Latin (CHR ''H''), CapitalIDot]
   \<and> fst (select_voice env_ok [Latin (CHR ''H''), CapitalIDot] fresh) = Inr (lit ''en-US-AriaNeural'')
   \<and> fetches (snd (select_voice env_ok [Latin (CHR ''H''), CapitalIDot] fresh)) = 1
   \<and> fst (select_voice env_ok (lower (take 2 [Latin (CHR ''H''), CapitalIDot])) fresh)
       = Inr (lit ''hi-IN-SwaraNeural'')
   \<and> fetches (snd (select_voice env_ok (lower (take 2 [Latin (CHR ''H''), CapitalIDot])) fresh)) = 0
   \<and> fst (select_voice env_ok [Latin (CHR ''H''), CapitalIDot] fresh)
       \<noteq> fst (select_voice env_ok (lower (take 2 [Latin (CHR ''H''), CapitalIDot])) fresh)"
  by code_simp

section \<open>What each stage method adds to the state\<close>

lemma and_thenE:
  assumes "and_then r f = (r', s')"
  obtains e where "r = (Inl e, s')" and "r' = Inl e"
        | a s1 where "r = (Inr a, s1)" and "f a s1 = (r', s')"
  using assms by (auto simp: and_then_def split: prod.splits sum.splits)

lemma load_model_run:
  assumes "load_model E s = (r, s')"
  shows "temp_dir s' = temp_dir s \<and> dirs s' = dirs s \<and> files s' = files s \<and>
     ((\<exists>m. r = Inr () \<and> whisper_load_model E (lit ''base'') = Inr m \<and> model s' = Some m \<and>
            trace s' = trace s @ [LoadBegin, LoadEnd])
      \<or> (\<exists>e. r = Inl (Exception e) \<and> whisper_load_model E (lit ''base'') = Inl e \<and> model s' = model s \<and>
            trace s' = trace s @ [LoadBegin, LoadError e]))"
  using assms by (auto simp: load_model_def log_def Let_def split: sum.splits)

lemma extract_audio_run:
  assumes "extract_audio E v s = (r, s')"
  shows "temp_dir s' = temp_dir s \<and> dirs s' = dirs s \<and> model s' = model s \<and>
     ((\<exists>a. r = Inr a \<and> files s' = a # files s \<and> trace s' = trace s @ [Begin Extract, End Extract])
      \<or> (\<exists>e. r = Inl (Exception e) \<and> files s' = files s \<and> trace s' = trace s @ [Begin Extract]))"
  using assms
  by (auto simp: extract_audio_def and_then_def call_def join_temp_dir_def log_def
      split: option.splits)

lemma transcribe_audio_run:
  assumes "transcribe_audio E a s = (r, s')"
  shows "temp_dir s' = temp_dir s \<and> dirs s' = dirs s \<and> model s' = model s \<and> files s' = files s \<and>
     ((\<exists>x. r = Inr x \<and> trace s' = trace s @ [Begin Transcribe, End Transcribe])
      \<or> (\<exists>e. r = Inl (Exception e) \<and> trace s' = trace s @ [Begin Transcribe]))"
  using assms
  by (auto simp: transcribe_audio_def log_def Let_def split: option.splits sum.splits)

lemma translate_text_run:
  assumes "translate_text E txt t s = (r, s')"
  shows "temp_dir s' = temp_dir s \<and> dirs s' = dirs s \<and> model s' = model s \<and> files s' = files s \<and>
     ((\<exists>x. r = Inr x \<and> google_translate E txt t = Inr x \<and> trace s' = trace s @ [Begin Translate, End Translate])
      \<or> (\<exists>e. r = Inl (SystemExit 1) \<and> google_translate E txt t = Inl e \<and>
            trace s' = trace s @ [Begin Translate, TranslationError e]))"
  using assms
  by (auto simp: translate_text_def log_def Let_def split: sum.splits)

lemma select_voice_run:
  assumes "select_voice E t s = (r, s')"
  shows "temp_dir s' = temp_dir s \<and> dirs s' = dirs s \<and> model s' = model s \<and> files s' = files s \<and>
     (\<exists>evs. trace s' = trace s @ evs \<and> (\<forall>x\<in>set evs. voice_event x)) \<and>
     (\<forall>n. r \<noteq> Inl (SystemExit n))"
  using assms
  by (auto simp: select_voice_def log_def Let_def split: sum.splits list.splits if_splits)

lemma generate_audio_run:
  assumes "generate_audio E txt t out s = (r, s')"
  shows "temp_dir s' = temp_dir s \<and> dirs s' = dirs s \<and> model s' = model s \<and>
     (\<exists>evs. (\<forall>x\<in>set evs. voice_event x) \<and>
       ((r = Inr () \<and> files s' = out # files s \<and>
           trace s' = trace s @ Begin Synthesize # evs @ [End Synthesize])
        \<or> (\<exists>e. r = Inl (Exception e) \<and> files s' = files s \<and>
              trace s' = trace s @ Begin Synthesize # evs)))"
proof -
  obtain r1 s1 where sv: "select_voice E t (log (Begin Synthesize) s) = (r1, s1)"
    by (cases "select_voice E t (log (Begin Synthesize) s)")
  from select_voice_run [OF sv] obtain evs where
    f: "temp_dir s1 = temp_dir s" "dirs s1 = dirs s" "model s1 = model s" "files s1 = files s"
    and tr: "trace s1 = trace s @ Begin Synthesize # evs" and ve: "\<forall>x\<in>set evs. voice_event x"
    and ne: "\<forall>n. r1 \<noteq> Inl (SystemExit n)"
    by (auto simp: log_def)
  show ?thesis
  proof (cases r1)
    case (Inl e)
    with ne obtain m where "e = Exception m" by (cases e) auto
    with Inl assms sv f tr ve show ?thesis
      by (auto simp: generate_audio_def)
  next
    case (Inr voice)
    show ?thesis
    proof (cases "communicate_save E txt voice out")
      case None
      with Inr assms sv f tr ve show ?thesis
        by (auto simp: generate_audio_def log_def Let_def intro!: exI[of _ "evs @ [UsingVoice voice]"])
    next
      case (Some e)
      with Inr assms sv f tr ve show ?thesis
        by (auto simp: generate_audio_def log_def Let_def intro!: exI[of _ "evs @ [UsingVoice voice]"])
    qed
  qed
qed

lemma create_translated_video_run:
  assumes "create_translated_video E v a out s = (r, s')"
  shows "temp_dir s' = temp_dir s \<and> dirs s' = dirs s \<and> model s' = model s \<and>
     ((r = Inr () \<and> set (files s') \<subseteq> insert out (set (files s)) \<and>
         trace s' = trace s @ [Begin Remux, End Remux])
      \<or> (\<exists>e. r = Inl (Exception e) \<and> files s' = files s \<and> trace s' = trace s @ [Begin Remux]))"
  using assms
  by (auto simp: create_translated_video_def and_then_def call_def call_value_def
        join_temp_dir_def log_def
      split: option.splits sum.splits if_splits)

lemma rmtree_run:
  assumes "rmtree d s = (r, s')"
  shows "temp_dir s' = temp_dir s \<and> model s' = model s \<and> trace s' = trace s @ [Rmtree d] \<and>
     ((r = Inr () \<and> d \<in> set (dirs s) \<and> d \<notin> set (dirs s') \<and>
         dirs s' = filter (\<lambda>p. p \<noteq> d \<and> \<not> is_under d p) (dirs s) \<and>
         files s' = filter (\<lambda>p. \<not> is_under d p) (files s))
      \<or> ((\<exists>e. r = Inl (Exception e)) \<and> d \<notin> set (dirs s) \<and> dirs s' = dirs s \<and>
           files s' = files s))"
  using assms
  by (auto simp: rmtree_def log_def Let_def split: if_splits)



lemma make_temp_dir_Inr:
  "make_temp_dir E s = (Inr d, s') \<Longrightarrow>
     temp_dir s' = temp_dir s \<and> model s' = model s \<and> files s' = files s \<and>
     mkdtemp E = Inr d \<and> dirs s' = d # dirs s \<and> trace s' = trace s @ [Mkdtemp d]"
  by (auto simp: make_temp_dir_def log_def split: sum.splits)

lemma make_temp_dir_Inl:
  "make_temp_dir E s = (Inl x, s') \<Longrightarrow> (\<exists>e. x = Exception e \<and> mkdtemp E = Inl e) \<and> s' = s"
  by (auto simp: make_temp_dir_def log_def split: sum.splits)

lemma load_model_Inr:
  "load_model E s = (Inr u, s') \<Longrightarrow>
     temp_dir s' = temp_dir s \<and> dirs s' = dirs s \<and> files s' = files s \<and>
     whisper_load_model E (lit ''base'') = Inr (the (model s')) \<and> model s' \<noteq> None \<and>
     trace s' = trace s @ [LoadBegin, LoadEnd]"
  by (auto dest!: load_model_run)

lemma load_model_Inl:
  "load_model E s = (Inl x, s') \<Longrightarrow>
     temp_dir s' = temp_dir s \<and> dirs s' = dirs s \<and> files s' = files s \<and> model s' = model s \<and>
     (\<exists>e. x = Exception e \<and> whisper_load_model E (lit ''base'') = Inl e \<and>
          trace s' = trace s @ [LoadBegin, LoadError e])"
  by (auto dest!: load_model_run)

lemma extract_audio_Inr:
  "extract_audio E v s = (Inr a, s') \<Longrightarrow>
     temp_dir s' = temp_dir s \<and> dirs s' = dirs s \<and> model s' = model s \<and>
     files s' = a # files s \<and> trace s' = trace s @ [Begin Extract, End Extract]"
  by (auto dest!: extract_audio_run)

lemma extract_audio_Inl:
  "extract_audio E v s = (Inl x, s') \<Longrightarrow>
     temp_dir s' = temp_dir s \<and> dirs s' = dirs s \<and> model s' = model s \<and>
     files s' = files s \<and> (\<exists>e. x = Exception e) \<and> trace s' = trace s @ [Begin Extract]"
  by (auto dest!: extract_audio_run)

lemma transcribe_audio_Inr:
  "transcribe_audio E a s = (Inr x, s') \<Longrightarrow>
     temp_dir s' = temp_dir s \<and> dirs s' = dirs s \<and> model s' = model s \<and>
     files s' = files s \<and> trace s' = trace s @ [Begin Transcribe, End Transcribe]"
  by (auto dest!: transcribe_audio_run)

lemma transcribe_audio_Inl:
  "transcribe_audio E a s = (Inl x, s') \<Longrightarrow>
     temp_dir s' = temp_dir s \<and> dirs s' = dirs s \<and> model s' = model s \<and>
     files s' = files s \<and> (\<exists>e. x = Exception e) \<and> trace s' = trace s @ [Begin Transcribe]"
  by (auto dest!: transcribe_audio_run)

lemma translate_text_Inr:
  "translate_text E txt t s = (Inr x, s') \<Longrightarrow>
     temp_dir s' = temp_dir s \<and> dirs s' = dirs s \<and> model s' = model s \<and>
     files s' = files s \<and> trace s' = trace s @ [Begin Translate, End Translate]"
  by (auto dest!: translate_text_run)

lemma translate_text_Inl:
  "translate_text E txt t s = (Inl x, s') \<Longrightarrow>
     temp_dir s' = temp_dir s \<and> dirs s' = dirs s \<and> model s' = model s \<and>
     files s' = files s \<and> x = SystemExit 1 \<and>
     (\<exists>e. google_translate E txt t = Inl e \<and> trace s' = trace s @ [Begin Translate, TranslationError e])"
  by (auto dest!: translate_text_run)

lemma generate_audio_Inr:
  "generate_audio E txt t out s = (Inr u, s') \<Longrightarrow>
     temp_dir s' = temp_dir s \<and> dirs s' = dirs s \<and> model s' = model s \<and>
     files s' = out # files s \<and>
     (\<exists>evs. (\<forall>x\<in>set evs. voice_event x) \<and>
            trace s' = trace s @ Begin Synthesize # evs @ [End Synthesize])"
  by (auto dest!: generate_audio_run)

lemma generate_audio_Inl:
  "generate_audio E txt t out s = (Inl x, s') \<Longrightarrow>
     temp_dir s' = temp_dir s \<and> dirs s' = dirs s \<and> model s' = model s \<and>
     files s' = files s \<and> (\<exists>e. x = Exception e) \<and>
     (\<exists>evs. (\<forall>x\<in>set evs. voice_event x) \<and> trace s' = trace s @ Begin Synthesize # evs)"
  by (auto dest!: generate_audio_run)

lemma create_translated_video_Inr:
  "create_translated_video E v a out s = (Inr u, s') \<Longrightarrow>
     temp_dir s' = temp_dir s \<and> dirs s' = dirs s \<and> model s' = model s \<and>
     set (files s') \<subseteq> insert out (set (files s)) \<and>
     trace s' = trace s @ [Begin Remux, End Remux]"
  by (auto dest!: create_translated_video_run)

lemma create_translated_video_Inl:
  "create_translated_video E v a out s = (Inl x, s') \<Longrightarrow>
     temp_dir s' = temp_dir s \<and> dirs s' = dirs s \<and> model s' = model s \<and>
     files s' = files s \<and> (\<exists>e. x = Exception e) \<and> trace s' = trace s @ [Begin Remux]"
  by (auto dest!: create_translated_video_run)

lemma rmtree_Inr:
  "rmtree d s = (Inr u, s') \<Longrightarrow>
     temp_dir s' = temp_dir s \<and> model s' = model s \<and> trace s' = trace s @ [Rmtree d] \<and>
     d \<in> set (dirs s) \<and> dirs s' = filter (\<lambda>p. p \<noteq> d \<and> \<not> is_under d p) (dirs s) \<and>
     files s' = filter (\<lambda>p. \<not> is_under d p) (files s)"
  by (auto dest!: rmtree_run)

lemma rmtree_Inl:
  "rmtree d s = (Inl x, s') \<Longrightarrow>
     temp_dir s' = temp_dir s \<and> model s' = model s \<and> trace s' = trace s @ [Rmtree d] \<and>
     d \<notin> set (dirs s) \<and> dirs s' = dirs s \<and> files s' = files s \<and> (\<exists>e. x = Exception e)"
  by (auto dest!: rmtree_run)

lemmas run_Inr = make_temp_dir_Inr load_model_Inr extract_audio_Inr transcribe_audio_Inr
  translate_text_Inr generate_audio_Inr create_translated_video_Inr rmtree_Inr

lemmas run_Inl = make_temp_dir_Inl load_model_Inl extract_audio_Inl transcribe_audio_Inl
  translate_text_Inl generate_audio_Inl create_translated_video_Inl rmtree_Inl

lemma voice_events_no_stage: "\<forall>x\<in>set evs. voice_event x \<Longrightarrow> stage_events evs = []"
  by (induction evs) (auto simp: stage_events_def elim: voice_event.elims)

lemma stage_events_append: "stage_events (a @ b) = stage_events a @ stage_events b"
  by (simp add: stage_events_def)

lemma stage_events_Cons: "stage_events (x # b) = (if is_stage_event x then x # stage_events b else stage_events b)"
  by (simp add: stage_events_def)

lemma stage_events_Nil: "stage_events [] = []"
  by (simp add: stage_events_def)

lemma voice_events_no_error: "\<forall>x\<in>set evs. voice_event x \<Longrightarrow> TranslationError e \<notin> set evs"
  by auto

lemma voice_events_no_load: "\<forall>x\<in>set evs. voice_event x \<Longrightarrow> LoadBegin \<notin> set evs"
  by auto

lemma voice_events_no_cleanup:
  "\<forall>x\<in>set evs. voice_event x \<Longrightarrow> filter is_cleanup evs = [] \<and> Rmtree d \<notin> set evs"
  by (induction evs) (auto elim: voice_event.elims)

lemmas try_simps = set_temp_dir_def stage_events_append stage_events_Cons stage_events_Nil
       voice_events_no_stage voice_events_no_error voice_events_no_load voice_events_no_cleanup
       stage_order_def join_temp_dir_def cleanup_def log_def

lemma try_stages:
  assumes "translate_video_try E v t out s = (r, s')"
  shows "\<exists>evs. trace s' = trace s @ evs \<and> prefix (stage_events evs) stage_order \<and>
         (r = Inr () \<longrightarrow> stage_events evs = stage_order)"
  using assms unfolding translate_video_try_def
  apply -
  apply (elim and_thenE; (simp only: split_paired_all prod.case)?; (elim and_thenE)?)
  apply (clarsimp dest!: run_Inl run_Inr simp: try_simps split: if_splits option.splits)+
  done


lemma try_translation_failure:
  assumes "translate_video_try E v t out s = (r, s')"
  shows "\<exists>evs. trace s' = trace s @ evs \<and>
         (\<forall>e. TranslationError e \<in> set evs \<longrightarrow> r = Inl (SystemExit 1) \<and> last evs = TranslationError e)"
  using assms unfolding translate_video_try_def
  apply -
  apply (elim and_thenE; (simp only: split_paired_all prod.case)?; (elim and_thenE)?)
  apply (clarsimp dest!: run_Inl run_Inr simp: try_simps split: if_splits option.splits)+
  done

lemma try_temp_dir_left:
  assumes "translate_video_try E v t out s = (r, s')"
  shows "\<forall>d e. mkdtemp E = Inr d \<and> r = Inl e \<longrightarrow> d \<in> set (dirs s')"
  using assms unfolding translate_video_try_def
  apply -
  apply (elim and_thenE; (simp only: split_paired_all prod.case)?; (elim and_thenE)?)
  apply (clarsimp dest!: run_Inl run_Inr simp: try_simps split: if_splits option.splits)+
  done



lemma try_load:
  assumes "translate_video_try E v t out s = (r, s')" and "mkdtemp E = Inr d"
  shows "\<exists>evs. trace s' = trace s @ evs \<and>
      (model s = None \<longrightarrow>
         (\<forall>m. whisper_load_model E (lit ''base'') = Inr m \<longrightarrow>
            (\<exists>rest. evs = [Mkdtemp d, LoadBegin, LoadEnd, Begin Extract] @ rest) \<and> model s' = Some m) \<and>
         (\<forall>e. whisper_load_model E (lit ''base'') = Inl e \<longrightarrow>
            r = Inl (Exception e) \<and> evs = [Mkdtemp d, LoadBegin, LoadError e])) \<and>
      (model s \<noteq> None \<longrightarrow> LoadBegin \<notin> set evs \<and> model s' = model s)"
  using assms unfolding translate_video_try_def
  apply -
  apply (elim and_thenE; (simp only: split_paired_all prod.case)?; (elim and_thenE)?)
  apply (clarsimp dest!: run_Inl run_Inr simp: try_simps split: if_splits option.splits)+
  done


lemma translate_video_cases:
  assumes "translate_video E v t out s = (r, s')"
  obtains e s0 where "translate_video_try E v t out s = (Inl (Exception e), s0)"
      and "r = Inl (SystemExit 1)" and "s' = log (PrintError e) s0"
    | "translate_video_try E v t out s = (r, s')" and "\<forall>e. r \<noteq> Inl (Exception e)"
  using assms
  by (auto simp: translate_video_def split: prod.splits sum.splits py_exc.splits)

lemma events_since_append: "trace s' = trace s @ evs \<Longrightarrow> events_since s s' = evs"
  by (simp add: events_since_def)

lemma events_since_log:
  "trace s0 = trace s @ evs \<Longrightarrow> events_since s (log e s0) = evs @ [e]"
  by (simp add: events_since_def log_def)

text \<open>
  C6.  The stage events of a run of \<open>translate_video\<close> (the beginning and the end of
  Extract, Transcribe, Translate, Synthesize and Remux) are an initial part of the
  fixed order, so that no stage begins before the one before it has ended and none
  is skipped or run twice; a run that returns has gone through all five.
\<close>

theorem stages_in_order:
  assumes "translate_video E v t out s = (r, s')"
  shows "prefix (stage_events (events_since s s')) stage_order
     \<and> (r = Inr () \<longrightarrow> stage_events (events_since s s') = stage_order)"
  using assms
proof (cases rule: translate_video_cases)
  case (1 e s0)
  from try_stages [OF 1(1)] obtain evs where
    "trace s0 = trace s @ evs" and "prefix (stage_events evs) stage_order" by blast
  with 1 show ?thesis
    by (simp add: events_since_log stage_events_append stage_events_Cons stage_events_Nil)
next
  case 2
  from try_stages [OF 2(1)] show ?thesis
    by (auto simp: events_since_append)
qed

theorem stages_in_order_witness:
  "fst (translate_video env_ok (lit ''videos/clip.mp4'') (lit ''es'') (lit ''out.mp4'') fresh) = Inr ()
   \<and> stage_events (events_since fresh (snd (translate_video env_ok (lit ''videos/clip.mp4'') (lit ''es'') (lit ''out.mp4'') fresh))) = stage_order"
proof -
  have ok: "fst (translate_video env_ok (lit ''videos/clip.mp4'') (lit ''es'') (lit ''out.mp4'') fresh) = Inr ()"
    by code_simp
  then have run: "translate_video env_ok (lit ''videos/clip.mp4'') (lit ''es'') (lit ''out.mp4'') fresh = (Inr (), snd (translate_video env_ok (lit ''videos/clip.mp4'') (lit ''es'') (lit ''out.mp4'') fresh))"
    by (simp add: prod_eq_iff)
  from stages_in_order [OF run] ok show ?thesis by simp
qed

lemma translate_video_translation_failure:
  assumes "translate_video E v t out s = (r, s')"
    and "TranslationError e \<in> set (events_since s s')"
  shows "r = Inl (SystemExit 1) \<and> last (events_since s s') = TranslationError e"
  using assms(1)
proof (cases rule: translate_video_cases)
  case (1 x s0)
  from try_translation_failure [OF 1(1)] obtain evs where
    tr: "trace s0 = trace s @ evs"
    and tf: "\<forall>e. TranslationError e \<in> set evs \<longrightarrow> Inl (Exception x) = Inl (SystemExit 1) \<and> last evs = TranslationError e"
    by blast
  from assms(2) 1 tr have "TranslationError e \<in> set evs"
    by (simp add: events_since_log)
  with tf show ?thesis by simp
next
  case 2
  from try_translation_failure [OF 2(1)] assms(2) show ?thesis
    by (auto simp: events_since_append)
qed

lemma failing_run_keeps_temp_dir:
  assumes "translate_video E v t out s = (Inl e, s')" and "mkdtemp E = Inr d"
  shows "d \<in> set (dirs s')"
  using assms(1)
proof (cases rule: translate_video_cases)
  case (1 x s0)
  from try_temp_dir_left [OF 1(1)] assms(2) have "d \<in> set (dirs s0)" by blast
  with 1 show ?thesis by (simp add: log_def)
next
  case 2
  from try_temp_dir_left [OF 2(1)] assms(2) show ?thesis by blast
qed


text \<open>
  C2 (amended).  \<open>translate_video\<close> loads the model itself when it is not loaded: the
  load follows the creation of the temporary directory and comes before the
  extraction.  When the load fails the run ends with exit status 1 after the error
  is printed.  A model that is loaded already is not loaded again.
\<close>

theorem model_loaded_on_demand:
  assumes "translate_video E v t out s = (r, s')" and "mkdtemp E = Inr d"
  shows "(model s = None \<longrightarrow>
           (\<forall>m. whisper_load_model E (lit ''base'') = Inr m \<longrightarrow>
              (\<exists>rest. events_since s s' = [Mkdtemp d, LoadBegin, LoadEnd, Begin Extract] @ rest)
              \<and> model s' = Some m) \<and>
           (\<forall>e. whisper_load_model E (lit ''base'') = Inl e \<longrightarrow>
              r = Inl (SystemExit 1)
              \<and> events_since s s' = [Mkdtemp d, LoadBegin, LoadError e, PrintError e]))
       \<and> (model s \<noteq> None \<longrightarrow> LoadBegin \<notin> set (events_since s s') \<and> model s' = model s)"
  using assms(1)
proof (cases rule: translate_video_cases)
  case (1 x s0)
  from try_load [OF 1(1) assms(2)] 1(2,3) show ?thesis
    by (auto simp: events_since_def log_def)
next
  case 2
  from try_load [OF 2(1) assms(2)] 2(2) show ?thesis
    by (auto simp: events_since_append)
qed


theorem model_loaded_on_demand_witness:
  "mkdtemp env_ok = Inr (lit ''/tmp/tmpab12'') \<and> model fresh = None
   \<and> whisper_load_model env_ok (lit ''base'') = Inr (WhisperModel (lit ''base''))
   \<and> (\<exists>rest. events_since fresh (snd (translate_video env_ok (lit ''videos/clip.mp4'') (lit ''es'') (lit ''out.mp4'') fresh)) =
          [Mkdtemp (lit ''/tmp/tmpab12''), LoadBegin, LoadEnd, Begin Extract] @ rest)
   \<and> model (snd (translate_video env_ok (lit ''videos/clip.mp4'') (lit ''es'') (lit ''out.mp4'') fresh)) = Some (WhisperModel (lit ''base''))"
proof -
  have d: "mkdtemp env_ok = Inr (lit ''/tmp/tmpab12'')" by (simp add: env_ok_def)
  have m: "model fresh = None" by (simp add: fresh_def)
  have l: "whisper_load_model env_ok (lit ''base'') = Inr (WhisperModel (lit ''base''))"
    by (simp add: env_ok_def)
  have run: "translate_video env_ok (lit ''videos/clip.mp4'') (lit ''es'') (lit ''out.mp4'') fresh = (fst (translate_video env_ok (lit ''videos/clip.mp4'') (lit ''es'') (lit ''out.mp4'') fresh), snd (translate_video env_ok (lit ''videos/clip.mp4'') (lit ''es'') (lit ''out.mp4'') fresh))"
    by simp
  from model_loaded_on_demand [OF run d] d m l show ?thesis by simp
qed

text \<open>
  C2 as stated fails: a translator without a model, given collaborators that all
  succeed, loads the model inside the run and the run returns normally.
\<close>

theorem model_not_loaded_counterexample:
  "model fresh = None
   \<and> fst (translate_video env_ok (lit ''videos/clip.mp4'') (lit ''es'') (lit ''out.mp4'') fresh) = Inr ()
   \<and> LoadEnd \<in> set (trace (snd (translate_video env_ok (lit ''videos/clip.mp4'') (lit ''es'') (lit ''out.mp4'') fresh)))
   \<and> model (snd (translate_video env_ok (lit ''videos/clip.mp4'') (lit ''es'') (lit ''out.mp4'') fresh)) = Some (WhisperModel (lit ''base''))"
  by code_simp


section \<open>The temporary directory after a failure\<close>

text \<open>
  C1.  A video whose audio cannot be extracted: the run ends with exit status 1, the
  temporary directory is still on disk and \<open>rmtree\<close> was never called.
\<close>

theorem temp_dir_left_after_failure:
  "fst (translate_video env_no_audio (lit ''videos/clip.mp4'') (lit ''es'') (lit ''out.mp4'') fresh)
     = Inl (SystemExit 1)
   \<and> (lit ''/tmp/tmpab12'') \<in> set (dirs (snd
         (translate_video env_no_audio (lit ''videos/clip.mp4'') (lit ''es'') (lit ''out.mp4'') fresh)))
   \<and> Rmtree (lit ''/tmp/tmpab12'') \<notin> set (trace (snd
         (translate_video env_no_audio (lit ''videos/clip.mp4'') (lit ''es'') (lit ''out.mp4'') fresh)))"
  by code_simp




section \<open>The web panel: progress and failures\<close>

lemma step_Inr:
  "step msg n s = (Inr u, s') \<Longrightarrow>
     temp_dir s' = temp_dir s \<and> dirs s' = dirs s \<and> model s' = model s \<and> files s' = files s \<and>
     trace s' = trace s @ [StatusText msg, Progress n]"
  by (auto simp: step_def log_def)

lemma step_Inl: "step msg n s = (Inl x, s') \<Longrightarrow> False"
  by (simp add: step_def)

lemma set_temp_dir_Inr:
  "set_temp_dir d s = (Inr u, s') \<Longrightarrow>
     temp_dir s' = Some d \<and> dirs s' = dirs s \<and> model s' = model s \<and> files s' = files s \<and>
     trace s' = trace s"
  by (auto simp: set_temp_dir_def)

lemma set_temp_dir_Inl: "set_temp_dir d s = (Inl x, s') \<Longrightarrow> False"
  by (simp add: set_temp_dir_def)

lemma rmtree_trace:
  "rmtree d s = (r, s') \<Longrightarrow> trace s' = trace s @ [Rmtree d] \<and> set (dirs s') \<subseteq> set (dirs s)"
  by (auto dest!: rmtree_run)

lemma progress_values_append: "progress_values (a @ b) = progress_values a @ progress_values b"
  by (simp add: progress_values_def map_filter_def)

lemma progress_values_Cons:
  "progress_values (x # b) =
     (case progress_of x of Some n \<Rightarrow> n # progress_values b | None \<Rightarrow> progress_values b)"
  by (simp add: progress_values_def map_filter_def split: option.splits)

lemma progress_values_Nil: "progress_values [] = []"
  by (simp add: progress_values_def map_filter_def)

lemma voice_events_no_progress: "\<forall>x\<in>set evs. voice_event x \<Longrightarrow> progress_values evs = []"
  by (induction evs) (auto simp: progress_values_Cons progress_values_Nil elim: voice_event.elims)

lemma checkpoints_append: "checkpoints (a @ b) = checkpoints a @ checkpoints b"
  by (simp add: checkpoints_def)

lemma checkpoints_Cons:
  "checkpoints (x # b) = (if is_checkpoint x then x # checkpoints b else checkpoints b)"
  by (simp add: checkpoints_def)

lemma checkpoints_Nil: "checkpoints [] = []"
  by (simp add: checkpoints_def)

lemma voice_events_no_checkpoint: "\<forall>x\<in>set evs. voice_event x \<Longrightarrow> checkpoints evs = []"
  by (induction evs) (auto simp: checkpoints_def elim: voice_event.elims)

lemma voice_events_no_widget:
  "\<forall>x\<in>set evs. voice_event x \<Longrightarrow>
     StSuccess \<notin> set evs \<and> StError m \<notin> set evs \<and> Rmtree d \<notin> set evs"
  by auto

lemmas app_simps = progress_values_append progress_values_Cons progress_values_Nil
  voice_events_no_progress checkpoints_append checkpoints_Cons checkpoints_Nil
  voice_events_no_checkpoint voice_events_no_widget voice_events_no_error log_def

lemma app_stages_progress:
  assumes "app_stages E tmp vp t outp s = (r, s')"
  shows "\<exists>evs. trace s' = trace s @ evs \<and>
     prefix (progress_values evs) [10, 30, 50, 70, 85, 100] \<and>
     (StSuccess \<in> set evs \<longrightarrow>
        progress_values evs = [10, 30, 50, 70, 85, 100] \<and>
        checkpoints evs =
          [Progress 10, Begin Extract, Progress 30, Begin Transcribe, Progress 50,
           Begin Translate, Progress 70, Begin Synthesize, Progress 85, Begin Remux,
           Progress 100])"
  using assms unfolding app_stages_def
  apply -
  apply (elim and_thenE; (simp only: split_paired_all prod.case)?; (elim and_thenE)?)
  apply (clarsimp dest!: run_Inl run_Inr step_Inr step_Inl set_temp_dir_Inr set_temp_dir_Inl rmtree_trace
           simp: app_simps split: if_splits option.splits)+
  done

lemma app_stages_translation_failure:
  assumes "app_stages E tmp vp t outp s = (r, s')"
  shows "\<exists>evs. trace s' = trace s @ evs \<and> 
     (\<forall>e. TranslationError e \<in> set evs \<longrightarrow>
        r = Inl (SystemExit 1) \<and> last evs = TranslationError e \<and> dirs s' = dirs s \<and>
        (\<forall>m. StError m \<notin> set evs) \<and> (\<forall>d. Rmtree d \<notin> set evs))"
  using assms unfolding app_stages_def
  apply -
  apply (elim and_thenE; (simp only: split_paired_all prod.case)?; (elim and_thenE)?)
  apply (clarsimp dest!: run_Inl run_Inr step_Inr step_Inl set_temp_dir_Inr set_temp_dir_Inl rmtree_trace
           simp: app_simps split: if_splits option.splits)+
  done


lemma app_init_translator_loaded:
  assumes "model_loaded ss" and "app_init_translator E ss s = (r0, ss2, s3)"
  shows "r0 = Inr () \<and> trace s3 = trace s \<and> dirs s3 = dirs s \<and> files s3 = files s \<and>
         processing ss2 = processing ss"
  using assms by (auto simp: app_init_translator_def Let_def split: if_splits)

lemma app_except_run:
  assumes "app_except tmp (r1, s3) = (r, s4)"
  shows "(\<exists>e evs. r1 = Inl (Exception e) \<and> trace s4 = trace s3 @ StError e # evs \<and>
              set evs \<subseteq> {Rmtree tmp} \<and> (\<forall>n. r \<noteq> Inl (SystemExit n)))
       \<or> ((\<forall>e. r1 \<noteq> Inl (Exception e)) \<and> r = r1 \<and> s4 = s3)"
proof (cases r1)
  case (Inr u)
  with assms show ?thesis by (auto simp: app_except_def)
next
  case (Inl x)
  show ?thesis
  proof (cases x)
    case (SystemExit n)
    with Inl assms show ?thesis by (auto simp: app_except_def)
  next
    case (Exception e)
    show ?thesis
    proof (cases "os_path_exists tmp (log (StError e) s3)")
      case True
      with Inl Exception assms have "rmtree tmp (log (StError e) s3) = (r, s4)"
        by (simp add: app_except_def Let_def)
      from rmtree_run [OF this] Inl Exception show ?thesis
        by (auto simp: log_def)
    next
      case False
      with Inl Exception assms show ?thesis
        by (auto simp: app_except_def Let_def log_def)
    qed
  qed
qed

lemma app_translate_run:
  assumes "app_translate E nm t ss s = (r, ss', s')" and "model_loaded ss"
  obtains (no_tmp) e where "mkdtemp E = Inl e" and "r = Inl (Exception e)" and "s' = s"
  | (ran) tmp s2 r1 s3 s4 vp outp where "mkdtemp E = Inr tmp"
      and "trace s2 = trace s @ [Mkdtemp tmp, ProgressCreate 0]"
      and "dirs s2 = tmp # dirs s"
      and "app_stages E tmp vp t outp s2 = (r1, s3)"
      and "app_except tmp (r1, s3) = (r, s4)"
      and "s' = log WidgetsEmptied s4" and "processing ss' = False"
proof (cases "make_temp_dir E s")
  case (Pair r0 s0)
  show ?thesis
  proof (cases r0)
    case (Inl x)
    with Pair assms make_temp_dir_Inl [of E s x s0] no_tmp show ?thesis
      by (auto simp: app_translate_def Let_def)
  next
    case (Inr tmp)
    note mk = make_temp_dir_Inr [OF Pair [unfolded Inr]]
    let ?s1 = "log (ProgressCreate 0) (s0\<lparr>files := path_join tmp nm # files s0\<rparr>)"
    let ?ss1 = "ss\<lparr>processing := True\<rparr>"
    obtain r0' ss2 s2 where init: "app_init_translator E ?ss1 ?s1 = (r0', ss2, s2)"
      by (cases "app_init_translator E ?ss1 ?s1") auto
    from assms(2) have "model_loaded ?ss1" by simp
    from app_init_translator_loaded [OF this init]
    have i: "r0' = Inr ()" "trace s2 = trace ?s1" "dirs s2 = dirs ?s1" by auto
    let ?vp = "path_join tmp nm"
    let ?outp = "path_join tmp (stem (Path nm) @ (lit ''_translated_'') @ t @ path_suffix (Path nm))"
    obtain r1 s3 where st: "app_stages E tmp ?vp t ?outp s2 = (r1, s3)"
      by (cases "app_stages E tmp ?vp t ?outp s2") auto
    obtain r2 s4 where ex: "app_except tmp (r1, s3) = (r2, s4)"
      by (cases "app_except tmp (r1, s3)") auto
    from assms Pair Inr init i st ex
    have res: "r = r2" "s' = log WidgetsEmptied s4" "processing ss' = False"
      by (auto simp: app_translate_def Let_def and_then_def)
    from mk i have tr: "trace s2 = trace s @ [Mkdtemp tmp, ProgressCreate 0]"
      and dr: "dirs s2 = tmp # dirs s"
      by (auto simp: log_def)
    from mk have "mkdtemp E = Inr tmp" by simp
    from ran [OF this tr dr st ex [folded res(1)] res(2,3)] show ?thesis .
  qed
qed

text \<open>
  C8.  In a run of the web panel's translation block that reaches its success message,
  the calls of \<open>progress_bar.progress\<close> are exactly 10, 30, 50, 70, 85, 100 in this
  order; each of the first five comes directly before the beginning of one stage and
  the last one follows the last stage.  (The bar is created at 0 by \<open>st.progress(0)\<close>
  before the first update.)
\<close>

theorem progress_checkpoints:
  assumes "app_translate E nm t ss s = (r, ss', s')"
    and "StSuccess \<in> set (events_since s s')"
  shows "progress_values (events_since s s') = [10, 30, 50, 70, 85, 100]
     \<and> checkpoints (events_since s s') =
          [Progress 10, Begin Extract, Progress 30, Begin Transcribe, Progress 50,
           Begin Translate, Progress 70, Begin Synthesize, Progress 85, Begin Remux,
           Progress 100]"
proof (cases "model_loaded ss")
  case False
  with assms show ?thesis
    by (auto simp: app_translate_def events_since_def log_def)
next
  case True
  from assms(1) True show ?thesis
  proof (cases rule: app_translate_run)
    case (no_tmp e)
    with assms(2) show ?thesis by (simp add: events_since_def)
  next
    case (ran tmp s2 r1 s3 s4 vp outp)
    from app_stages_progress [OF ran(4)] obtain evs where
      tr3: "trace s3 = trace s2 @ evs"
      and pv: "StSuccess \<in> set evs \<longrightarrow>
        progress_values evs = [10, 30, 50, 70, 85, 100] \<and>
        checkpoints evs =
          [Progress 10, Begin Extract, Progress 30, Begin Transcribe, Progress 50,
           Begin Translate, Progress 70, Begin Synthesize, Progress 85, Begin Remux,
           Progress 100]"
      by blast
    from app_except_run [OF ran(5)] obtain hs where
      tr4: "trace s4 = trace s3 @ hs" and hs: "\<forall>x\<in>set hs. (\<exists>e. x = StError e) \<or> x = Rmtree tmp"
      by (auto; fastforce)
    from hs have nh: "progress_values hs = [] \<and> checkpoints hs = [] \<and> StSuccess \<notin> set hs"
      by (induction hs) (auto simp: progress_values_Cons progress_values_Nil checkpoints_def)
    from ran(2,6) tr3 tr4 have ev: "events_since s s' = [Mkdtemp tmp, ProgressCreate 0] @ evs @ hs @ [WidgetsEmptied]"
      by (simp add: events_since_def log_def)
    with assms(2) nh have "StSuccess \<in> set evs" by auto
    with pv ev nh show ?thesis
      by (simp add: app_simps)
  qed
qed


lemma app_translate_translation_failure:
  assumes "app_translate E nm t ss s = (r, ss', s')"
    and "TranslationError e \<in> set (events_since s s')"
  shows "r = Inl (SystemExit 1)
     \<and> (\<forall>m. StError m \<notin> set (events_since s s'))
     \<and> (\<forall>d. Rmtree d \<notin> set (events_since s s'))
     \<and> (\<exists>pre. events_since s s' = pre @ [TranslationError e, WidgetsEmptied])
     \<and> processing ss' = False"
proof (cases "model_loaded ss")
  case False
  with assms show ?thesis
    by (auto simp: app_translate_def events_since_def log_def)
next
  case True
  from assms(1) True show ?thesis
  proof (cases rule: app_translate_run)
    case (no_tmp e)
    with assms(2) show ?thesis by (simp add: events_since_def)
  next
    case (ran tmp s2 r1 s3 s4 vp outp)
    from app_stages_translation_failure [OF ran(4)] obtain evs where
      tr3: "trace s3 = trace s2 @ evs"
      and tf: "\<forall>e. TranslationError e \<in> set evs \<longrightarrow>
        r1 = Inl (SystemExit 1) \<and> last evs = TranslationError e \<and> dirs s3 = dirs s2 \<and>
        (\<forall>m. StError m \<notin> set evs) \<and> (\<forall>d. Rmtree d \<notin> set evs)"
      by blast
    from app_except_run [OF ran(5)] obtain hs where
      tr4: "trace s4 = trace s3 @ hs"
      and hs: "\<forall>x\<in>set hs. (\<exists>e. x = StError e) \<or> x = Rmtree tmp"
      and same: "(\<forall>e. r1 \<noteq> Inl (Exception e)) \<longrightarrow> r = r1 \<and> hs = []"
      by (auto; fastforce)
    from ran(2,6) tr3 tr4
    have ev: "events_since s s' = [Mkdtemp tmp, ProgressCreate 0] @ evs @ hs @ [WidgetsEmptied]"
      by (simp add: events_since_def log_def)
    from hs have "TranslationError e \<notin> set hs" by auto
    with assms(2) ev have mem: "TranslationError e \<in> set evs" by auto
    with tf have r1: "r1 = Inl (SystemExit 1)" and l: "last evs = TranslationError e"
      and ne: "\<forall>m. StError m \<notin> set evs" "\<forall>d. Rmtree d \<notin> set evs"
      by auto
    from r1 same have r: "r = Inl (SystemExit 1)" and h0: "hs = []" by auto
    from mem have "evs \<noteq> []" by auto
    with l have "evs = butlast evs @ [TranslationError e]"
      by (metis append_butlast_last_id)
    then obtain pre where "evs = pre @ [TranslationError e]" ..
    with ev h0 r ne ran(7) show ?thesis by auto
  qed
qed

text \<open>
  C10 (amended).  When the translation service fails, \<open>translate_text\<close> raises
  \<open>SystemExit 1\<close> to its caller in place of the error; it never ends with an exception
  of class \<open>Exception\<close>.  In \<open>translate_video\<close> the run then ends with \<open>SystemExit 1\<close> and
  the translation error is its last event: the \<open>except Exception\<close> handler is skipped.
  In the web panel the outcome is \<open>SystemExit 1\<close> as well, no error box is shown and the
  temporary directory is not removed; the \<open>finally\<close> clause still runs after the
  failure, emptying the widgets and resetting \<open>processing\<close>.
\<close>

theorem translation_failure_exits:
  "(\<forall>x. fst (translate_text E txt t s) \<noteq> Inl (Exception x))
   \<and> (\<forall>e. google_translate E txt t = Inl e \<longrightarrow>
          fst (translate_text E txt t s) = Inl (SystemExit 1))
   \<and> (\<forall>r s' e. translate_video E v t out s = (r, s')
          \<and> TranslationError e \<in> set (events_since s s') \<longrightarrow>
          r = Inl (SystemExit 1) \<and> last (events_since s s') = TranslationError e)
   \<and> (\<forall>r ss' s' e. app_translate E nm t ss s = (r, ss', s')
          \<and> TranslationError e \<in> set (events_since s s') \<longrightarrow>
          r = Inl (SystemExit 1)
          \<and> (\<forall>m. StError m \<notin> set (events_since s s'))
          \<and> (\<forall>d. Rmtree d \<notin> set (events_since s s'))
          \<and> (\<exists>pre. events_since s s' = pre @ [TranslationError e, WidgetsEmptied])
          \<and> processing ss' = False)"
proof -
  have a: "\<forall>x. fst (translate_text E txt t s) \<noteq> Inl (Exception x)"
    by (simp add: translate_text_def Let_def split: sum.splits)
  have b: "\<forall>e. google_translate E txt t = Inl e \<longrightarrow>
          fst (translate_text E txt t s) = Inl (SystemExit 1)"
    by (simp add: translate_text_def Let_def)
  from a b translate_video_translation_failure [of E v t out s]
    app_translate_translation_failure [of E nm t ss s]
  show ?thesis by blast
qed

section \<open>Sample runs\<close>

lemmas eval_defs = translate_video_def translate_video_try_def app_translate_def
  app_init_translator_def app_except_def app_stages_def and_then_def step_def make_temp_dir_def
  set_temp_dir_def load_model_def extract_audio_def call_def join_temp_dir_def
  transcribe_audio_def translate_text_def generate_audio_def select_voice_def
  create_translated_video_def rmtree_def log_def Let_def os_path_exists_def path_join_def
  is_under_def events_since_def env_ok_def env_no_audio_def env_no_translation_def fresh_def
  loaded_def loaded_session_def cleanup_def call_value_def lit_def slash_def dot_def

lemma stem_clip: "stem (Path (lit ''clip.mp4'')) = (lit ''clip'')"
  by code_simp

lemma suffix_clip: "path_suffix (Path (lit ''clip.mp4'')) = (lit ''.mp4'')"
  by code_simp

lemma code_es: "lang_code (lit ''es'') = (lit ''es'')"
  by code_simp

lemma voice_es: "map_of voice_map (lit ''es'') = Some (lit ''es-ES-ElviraNeural'')"
  by code_simp

lemmas sample_facts = stem_clip [unfolded lit_def list.map] suffix_clip [unfolded lit_def list.map]
  code_es [unfolded lit_def list.map] voice_es [unfolded lit_def list.map]

lemma panel_run_succeeds:
  "StSuccess \<in> set (events_since loaded (snd (snd (app_translate env_ok (lit ''clip.mp4'') (lit ''es'') loaded_session loaded))))"
  by (simp add: eval_defs sample_facts)

lemma cli_run_translation_fails:
  "TranslationError ''LanguageNotSupportedException'' \<in> set (events_since loaded (snd (translate_video env_no_translation (lit ''videos/clip.mp4'') (lit ''es'') (lit ''out.mp4'') loaded)))"
  by (simp add: eval_defs sample_facts)

lemma panel_run_translation_fails:
  "TranslationError ''LanguageNotSupportedException''
     \<in> set (events_since loaded (snd (snd (app_translate env_no_translation (lit ''clip.mp4'') (lit ''es'') loaded_session loaded))))"
  by (simp add: eval_defs sample_facts)

theorem progress_checkpoints_witness:
  "StSuccess \<in> set (events_since loaded (snd (snd (app_translate env_ok (lit ''clip.mp4'') (lit ''es'') loaded_session loaded))))
   \<and> progress_values (events_since loaded (snd (snd (app_translate env_ok (lit ''clip.mp4'') (lit ''es'') loaded_session loaded)))) = [10, 30, 50, 70, 85, 100]"
proof -
  have run: "app_translate env_ok (lit ''clip.mp4'') (lit ''es'') loaded_session loaded = (fst (app_translate env_ok (lit ''clip.mp4'') (lit ''es'') loaded_session loaded), fst (snd (app_translate env_ok (lit ''clip.mp4'') (lit ''es'') loaded_session loaded)), snd (snd (app_translate env_ok (lit ''clip.mp4'') (lit ''es'') loaded_session loaded)))"
    by simp
  from progress_checkpoints [OF run panel_run_succeeds] panel_run_succeeds
  show ?thesis by simp
qed

text \<open>
  C10 as stated fails.  With a translation service that fails, \<open>translate_text\<close> ends
  with an exception, \<open>SystemExit 1\<close>, that goes to its caller; and the web panel, a
  caller, runs its \<open>finally\<close> clause after the failure: the widgets are emptied after
  the translation error and \<open>processing\<close> is reset.
\<close>

theorem translation_failure_counterexample:
  "fst (translate_text env_no_translation (lit ''hello'') (lit ''es'') loaded)
     = Inl (SystemExit 1)
   \<and> take 2 (rev (events_since loaded (snd (snd (app_translate env_no_translation (lit ''clip.mp4'') (lit ''es'') loaded_session loaded)))))
       = [WidgetsEmptied, TranslationError ''LanguageNotSupportedException'']
   \<and> processing (fst (snd (app_translate env_no_translation (lit ''clip.mp4'') (lit ''es'') loaded_session loaded))) = False"
  by (simp add: eval_defs sample_facts)

theorem translation_failure_exits_witness:
  "google_translate env_no_translation (lit ''hello'') (lit ''es'') = Inl ''LanguageNotSupportedException''
   \<and> fst (translate_text env_no_translation (lit ''hello'') (lit ''es'') loaded) = Inl (SystemExit 1)
   \<and> TranslationError ''LanguageNotSupportedException'' \<in> set (events_since loaded (snd (translate_video env_no_translation (lit ''videos/clip.mp4'') (lit ''es'') (lit ''out.mp4'') loaded)))
   \<and> fst (translate_video env_no_translation (lit ''videos/clip.mp4'') (lit ''es'') (lit ''out.mp4'') loaded) = Inl (SystemExit 1)
   \<and> TranslationError ''LanguageNotSupportedException''
        \<in> set (events_since loaded (snd (snd (app_translate env_no_translation (lit ''clip.mp4'') (lit ''es'') loaded_session loaded))))
   \<and> fst (app_translate env_no_translation (lit ''clip.mp4'') (lit ''es'') loaded_session loaded) = Inl (SystemExit 1)"
proof -
  note T = translation_failure_exits [of env_no_translation "lit ''hello''" "lit ''es''" loaded
      "lit ''videos/clip.mp4''" "lit ''out.mp4''" "lit ''clip.mp4''" loaded_session]
  have g: "google_translate env_no_translation (lit ''hello'') (lit ''es'') = Inl ''LanguageNotSupportedException''"
    by (simp add: env_no_translation_def env_ok_def)
  note m1 = cli_run_translation_fails
  note m2 = panel_run_translation_fails
  have r1: "translate_video env_no_translation (lit ''videos/clip.mp4'') (lit ''es'') (lit ''out.mp4'') loaded = (fst (translate_video env_no_translation (lit ''videos/clip.mp4'') (lit ''es'') (lit ''out.mp4'') loaded), snd (translate_video env_no_translation (lit ''videos/clip.mp4'') (lit ''es'') (lit ''out.mp4'') loaded))" by simp
  have r2: "app_translate env_no_translation (lit ''clip.mp4'') (lit ''es'') loaded_session loaded = (fst (app_translate env_no_translation (lit ''clip.mp4'') (lit ''es'') loaded_session loaded), fst (snd (app_translate env_no_translation (lit ''clip.mp4'') (lit ''es'') loaded_session loaded)), snd (snd (app_translate env_no_translation (lit ''clip.mp4'') (lit ''es'') loaded_session loaded)))" by simp
  from T g have c2: "fst (translate_text env_no_translation (lit ''hello'') (lit ''es'') loaded) = Inl (SystemExit 1)"
    by blast
  from T r1 m1 have c3: "fst (translate_video env_no_translation (lit ''videos/clip.mp4'') (lit ''es'') (lit ''out.mp4'') loaded) = Inl (SystemExit 1)"
    by blast
  from T r2 m2 have c4: "fst (app_translate env_no_translation (lit ''clip.mp4'') (lit ''es'') loaded_session loaded) = Inl (SystemExit 1)"
    by blast
  from g c2 m1 c3 m2 c4 show ?thesis by blast
qed

section \<open>The default output path\<close>

lemma split_on_no_sep: "x \<in> set (split_on c s) \<Longrightarrow> c \<notin> set x"
  by (induction s arbitrary: x) (auto split: list.splits if_splits)











lemma name_of_parts: "name \<lparr>root = r, parts = comps @ [n]\<rparr> = n"
  by (simp add: name_def)







lemma default_output_path_samples:
  "path_str (default_output_path (lit ''clip.tar.gz'') (lit ''es'')) = lit ''clip.tar_translated_es.gz''
   \<and> path_str (default_output_path (lit ''/a/b/.hidden'') (lit ''fr'')) = lit ''/a/b/.hidden_translated_fr''
   \<and> path_str (default_output_path (lit ''a.b/c'') (lit ''es'')) = lit ''a.b/c_translated_es''
   \<and> path_str (default_output_path (lit ''//srv/clip.mp4'') (lit ''es''))
       = lit ''//srv/clip_translated_es.mp4''
   \<and> path_str (default_output_path (lit ''///srv/./x//clip.mp4'') (lit ''es''))
       = lit ''/srv/x/clip_translated_es.mp4''
   \<and> path_str (default_output_path (lit ''clip.'') (lit ''es'')) = lit ''clip._translated_es''"
  by code_simp




end
